theory Spec2Isabelle
  imports Main
begin

section \<open>JavaScript values\<close>

text \<open>
  The values the program reads properties of: \<open>response.data\<close>, which is whatever
  the DoH endpoint sent, parsed as JSON, and the \<open>error\<close> caught in \<open>cleanup\<close>.
  An object is the list of its own properties, each key once; an \<open>Error\<close> with
  message \<open>m\<close> is the object \<open>JObj [(''message'', JStr m)]\<close>. Of a number only
  whether it is zero is ever read, so numbers are kept as integers.

  \<open>get_property\<close> is the read of a property that is not built in (\<open>Answer\<close>,
  \<open>data\<close>, \<open>message\<close>): it throws a \<open>TypeError\<close> on \<open>undefined\<close> and
  \<open>null\<close>, finds an own property of an object, and is \<open>undefined\<close> otherwise.
\<close>

datatype js_value =
    JUndefined
  | JNull
  | JBool bool
  | JNum int
  | JStr string
  | JArr "js_value list"
  | JObj "(string \<times> js_value) list"

datatype js_error = RequestFailed | TypeError

definition own_property :: "(string \<times> js_value) list \<Rightarrow> string \<Rightarrow> js_value" where
  "own_property kvs k = (case map_of kvs k of None \<Rightarrow> JUndefined | Some v \<Rightarrow> v)"

fun get_property :: "js_value \<Rightarrow> string \<Rightarrow> js_error + js_value" where
  "get_property JUndefined k = Inl TypeError"
| "get_property JNull k = Inl TypeError"
| "get_property (JObj kvs) k = Inr (own_property kvs k)"
| "get_property v k = Inr JUndefined"

fun truthy :: "js_value \<Rightarrow> bool" where
  "truthy JUndefined = False"
| "truthy JNull = False"
| "truthy (JBool b) = b"
| "truthy (JNum n) = (n \<noteq> 0)"
| "truthy (JStr s) = (s \<noteq> [])"
| "truthy (JArr vs) = True"
| "truthy (JObj kvs) = True"

fun nullish :: "js_value \<Rightarrow> bool" where
  "nullish JUndefined = True"
| "nullish JNull = True"
| "nullish v = False"

fun is_array :: "js_value \<Rightarrow> bool" where
  "is_array (JArr vs) = True"
| "is_array v = False"

section \<open>The cleanup manager\<close>

text \<open>
  A cleanup handler is a zero-argument function that \<open>cleanup\<close> calls as
  \<open>await handler()\<close> inside a \<open>try\<close>. What the loop can observe of one call is
  whether the call throws at once, or returns something whose \<open>await\<close> later
  continues normally or raises, and the value thrown or rejected with, which may be
  any value, \<open>null\<close> and \<open>undefined\<close> included.
\<close>

datatype handler =
    Fulfils
  | Rejects js_value
  | Throws js_value

text \<open>
  The lines \<open>console.log\<close> prints in the cleanup manager; a warning carries the
  value of \<open>error.message\<close>.
\<close>

datatype log_line =
    LogCleaning
  | LogWarning js_value
  | LogRemoved
  | LogShutdownRequested

text \<open>
  The state of the process, as far as the cleanup manager reads or writes it.
  \<open>cleanupHandlers\<close> and \<open>isCleaning\<close> are the two fields of the class. Handlers are
  identified by their index in \<open>cleanupHandlers\<close>; \<open>invoked\<close> lists the calls
  \<open>handler()\<close> made so far, oldest first. \<open>awaiting\<close> is the suspended
  \<open>await\<close> of the loop, if any: the index of the handler called and what its result
  will do. \<open>exiting\<close> is Node's \<open>process._exiting\<close>; \<open>exitCode\<close> is \<open>Some c\<close>
  once the process has terminated with code \<open>c\<close>.
\<close>

record proc =
  cleanupHandlers :: "handler list"
  isCleaning :: bool
  awaiting :: "(nat \<times> handler) option"
  invoked :: "nat list"
  console :: "log_line list"
  exiting :: bool
  exitCode :: "nat option"

definition new_CleanupManager :: proc where
  "new_CleanupManager =
     \<lparr>cleanupHandlers = [], isCleaning = False, awaiting = None, invoked = [],
      console = [], exiting = False, exitCode = None\<rparr>"

definition addCleanupHandler :: "handler \<Rightarrow> proc \<Rightarrow> proc" where
  "addCleanupHandler h s = s\<lparr>cleanupHandlers := cleanupHandlers s @ [h]\<rparr>"

definition console_log :: "log_line \<Rightarrow> proc \<Rightarrow> proc" where
  "console_log l s = s\<lparr>console := console s @ [l]\<rparr>"

text \<open>
  \<open>cleanup\<close> up to its first suspension, the \<open>for\<close> loop from index \<open>i\<close> on, and
  \<open>process.exit\<close>. They call each other: the loop ends in \<open>process.exit(0)\<close>, and
  \<open>process.exit\<close> emits the event \<open>exit\<close>, whose listener (line 28) is
  \<open>cleanup\<close>. As in Node, \<open>process.exit\<close> emits \<open>exit\<close> only when the process
  is not exiting already, the listeners run synchronously, and the process terminates
  as soon as they return: a \<open>cleanup\<close> suspended at an \<open>await\<close> is never resumed.

  In the loop a handler that throws is caught in the same turn and the \<open>catch\<close>
  block reads \<open>error.message\<close> to log it. When that read succeeds the loop goes on.
  When it throws (the value caught is \<open>null\<close> or \<open>undefined\<close>), the exception
  leaves \<open>cleanup\<close>: the loop is over, nothing more is logged and
  \<open>process.exit\<close> is not reached; the promise of \<open>cleanup\<close> is rejected, which no
  caller handles, and the flag stays set (when Node reports the rejection as an
  uncaught exception, the listener of line 31 calls \<open>cleanup\<close>, which returns at
  once). Any other handler suspends the loop at its \<open>await\<close>.
\<close>

function cleanup :: "proc \<Rightarrow> proc"
  and cleanup_loop :: "nat \<Rightarrow> proc \<Rightarrow> proc"
  and process_exit :: "nat \<Rightarrow> proc \<Rightarrow> proc"
where
  "cleanup s =
     (if isCleaning s then s
      else cleanup_loop 0 (console_log LogCleaning (s\<lparr>isCleaning := True\<rparr>)))"
| "cleanup_loop i s =
     (if i < length (cleanupHandlers s) then
        (case cleanupHandlers s ! i of
           Throws error \<Rightarrow>
             (case get_property error ''message'' of
                Inl e \<Rightarrow> s\<lparr>invoked := invoked s @ [i]\<rparr>
              | Inr m \<Rightarrow>
                  cleanup_loop (Suc i)
                    (console_log (LogWarning m) (s\<lparr>invoked := invoked s @ [i]\<rparr>)))
         | h \<Rightarrow> s\<lparr>invoked := invoked s @ [i], awaiting := Some (i, h)\<rparr>)
      else process_exit 0 (console_log LogRemoved s))"
| "process_exit c s =
     (if exiting s then s\<lparr>exitCode := Some c\<rparr>
      else
        (let s' = cleanup (s\<lparr>exiting := True\<rparr>)
         in if exitCode s' = None then s'\<lparr>exitCode := Some c\<rparr> else s'))"
  by pat_completeness auto
termination
  by (relation "measures
        [\<lambda>x. case x of Inl s \<Rightarrow> (if exiting s then 0 else 1)
                | Inr (Inl (i, s)) \<Rightarrow> (if exiting s then 0 else 1)
                | Inr (Inr (c, s)) \<Rightarrow> (if exiting s then 0 else 1),
         \<lambda>x. case x of Inl s \<Rightarrow> (if isCleaning s then 0 else 1)
                | Inr (Inl (i, s)) \<Rightarrow> (if isCleaning s then 0 else 1)
                | Inr (Inr (c, s)) \<Rightarrow> (if isCleaning s then 0 else 1),
         \<lambda>x. case x of Inl s \<Rightarrow> 2
                | Inr (Inl (i, s)) \<Rightarrow> 1
                | Inr (Inr (c, s)) \<Rightarrow> (0::nat),
         \<lambda>x. case x of Inl s \<Rightarrow> 0
                | Inr (Inl (i, s)) \<Rightarrow> length (cleanupHandlers s) - i
                | Inr (Inr (c, s)) \<Rightarrow> 0]")
     (auto simp: console_log_def)

declare cleanup.simps [simp del] cleanup_loop.simps [simp del] process_exit.simps [simp del]

text \<open>
  The rest of \<open>cleanup\<close>: what runs when the awaited result of handler \<open>i\<close>
  settles. A rejection is caught and \<open>error.message\<close> read and logged as above;
  when the read succeeds, or the result is fulfilled, the loop goes on with the next
  handler.
\<close>

definition resume :: "proc \<Rightarrow> proc" where
  "resume s =
     (case awaiting s of
        None \<Rightarrow> s
      | Some (i, h) \<Rightarrow>
          (case h of
             Rejects error \<Rightarrow>
               (case get_property error ''message'' of
                  Inl e \<Rightarrow> s\<lparr>awaiting := None\<rparr>
                | Inr m \<Rightarrow>
                    cleanup_loop (Suc i) (console_log (LogWarning m) (s\<lparr>awaiting := None\<rparr>)))
           | _ \<Rightarrow> cleanup_loop (Suc i) (s\<lparr>awaiting := None\<rparr>)))"

definition shutdownFromWeb :: "proc \<Rightarrow> proc" where
  "shutdownFromWeb s = cleanup (console_log LogShutdownRequested s)"

text \<open>
  What can happen to the process, one event per turn of the event loop.
  \<open>setupProcessHandlers\<close> makes \<open>cleanup\<close> the listener of four process events
  besides \<open>exit\<close> (lines 29 to 32); \<open>ProcessExit c\<close> is a call \<open>process.exit(c)\<close>
  made outside the cleanup manager (\<open>go-live.js\<close> calls \<open>process.exit(1)\<close>);
  \<open>WebShutdown\<close> is the timer of the route \<open>/shutdown\<close> calling
  \<open>shutdownFromWeb\<close>; \<open>Settled\<close> is the awaited result of the handler in
  \<open>awaiting\<close> settling. A terminated process reacts to nothing.
\<close>

datatype process_event = SIGINT | SIGTERM | UncaughtException | Disconnect

datatype event =
    Emit process_event
  | ProcessExit nat
  | WebShutdown
  | Settled

definition step :: "event \<Rightarrow> proc \<Rightarrow> proc" where
  "step e s =
     (if exitCode s \<noteq> None then s
      else
        (case e of
           Emit _ \<Rightarrow> cleanup s
         | ProcessExit c \<Rightarrow> process_exit c s
         | WebShutdown \<Rightarrow> shutdownFromWeb s
         | Settled \<Rightarrow> resume s))"

definition run :: "event list \<Rightarrow> proc \<Rightarrow> proc" where
  "run evs s = fold step evs s"

text \<open>A session: the handlers registered at startup, in order, and no event yet.\<close>

definition session :: "handler list \<Rightarrow> proc" where
  "session hs = fold addCleanupHandler hs new_CleanupManager"

subsection \<open>The states of a session\<close>

text \<open>
  \<open>throws\<close> holds of the handlers whose call throws, \<open>aborts\<close> of those whose
  failure value makes the \<open>catch\<close> block throw, and \<open>logged h\<close> is what the
  \<open>catch\<close> block logs of handler \<open>h\<close>. \<open>cleanup_lines\<close> are the lines of the
  console that \<open>cleanup\<close> prints (all but the line of \<open>shutdownFromWeb\<close>).
\<close>

fun throws :: "handler \<Rightarrow> bool" where
  "throws (Throws error) = True"
| "throws _ = False"

fun aborts :: "handler \<Rightarrow> bool" where
  "aborts Fulfils = False"
| "aborts (Rejects error) = nullish error"
| "aborts (Throws error) = nullish error"

fun logged :: "handler \<Rightarrow> js_value list" where
  "logged Fulfils = []"
| "logged (Rejects error) =
     (case get_property error ''message'' of Inl e \<Rightarrow> [] | Inr m \<Rightarrow> [m])"
| "logged (Throws error) =
     (case get_property error ''message'' of Inl e \<Rightarrow> [] | Inr m \<Rightarrow> [m])"

definition warnings :: "handler list \<Rightarrow> log_line list" where
  "warnings hs = map LogWarning (concat (map logged hs))"

definition cleanup_lines :: "proc \<Rightarrow> log_line list" where
  "cleanup_lines s = filter (\<lambda>l. l \<noteq> LogShutdownRequested) (console s)"

text \<open>
  Between two events a session is in one of four kinds of state: no pass has started
  (\<open>idle\<close>), the pass is suspended at the \<open>await\<close> of handler \<open>i\<close>
  (\<open>suspended\<close>), the pass has ended in the \<open>catch\<close> block of handler \<open>i\<close>
  (\<open>aborted\<close>), or the pass has run to its end (\<open>finished\<close>). \<open>entering\<close>
  describes the state in which the loop is entered at index \<open>i\<close>.
\<close>

definition idle :: "handler list \<Rightarrow> proc \<Rightarrow> bool" where
  "idle hs s \<longleftrightarrow>
     cleanupHandlers s = hs \<and> \<not> isCleaning s \<and> awaiting s = None \<and> invoked s = [] \<and>
     cleanup_lines s = [] \<and> exitCode s = None"

definition entering :: "handler list \<Rightarrow> nat \<Rightarrow> proc \<Rightarrow> bool" where
  "entering hs i s \<longleftrightarrow>
     cleanupHandlers s = hs \<and> isCleaning s \<and> awaiting s = None \<and> i \<le> length hs \<and>
     invoked s = [0..<i] \<and> cleanup_lines s = LogCleaning # warnings (take i hs) \<and>
     exitCode s = None"

definition suspended :: "handler list \<Rightarrow> nat \<Rightarrow> proc \<Rightarrow> bool" where
  "suspended hs i s \<longleftrightarrow>
     cleanupHandlers s = hs \<and> isCleaning s \<and> i < length hs \<and>
     awaiting s = Some (i, hs ! i) \<and> \<not> throws (hs ! i) \<and>
     invoked s = [0..<Suc i] \<and> cleanup_lines s = LogCleaning # warnings (take i hs)"

definition aborted :: "handler list \<Rightarrow> nat \<Rightarrow> proc \<Rightarrow> bool" where
  "aborted hs i s \<longleftrightarrow>
     cleanupHandlers s = hs \<and> isCleaning s \<and> i < length hs \<and>
     awaiting s = None \<and> aborts (hs ! i) \<and>
     invoked s = [0..<Suc i] \<and> cleanup_lines s = LogCleaning # warnings (take i hs)"

definition finished :: "handler list \<Rightarrow> proc \<Rightarrow> bool" where
  "finished hs s \<longleftrightarrow>
     cleanupHandlers s = hs \<and> isCleaning s \<and> awaiting s = None \<and>
     invoked s = [0..<length hs] \<and>
     cleanup_lines s = LogCleaning # warnings hs @ [LogRemoved] \<and>
     exitCode s = Some 0"

definition pass_inv :: "handler list \<Rightarrow> proc \<Rightarrow> bool" where
  "pass_inv hs s \<longleftrightarrow>
     (idle hs s \<and> \<not> exiting s) \<or> (\<exists>i. suspended hs i s) \<or> (\<exists>i. aborted hs i s) \<or>
     finished hs s"

section \<open>The DoH resolver\<close>

text \<open>
  \<open>resolve\<close> reads \<open>response.data.Answer\<close>, tests its truthiness, calls its
  \<open>map\<close> and reads \<open>ans.data\<close> of every element; each of these steps is
  modelled with the \<open>TypeError\<close> it raises on the wrong kind of value. Only an
  array has a \<open>map\<close> to call.
\<close>

fun map_data :: "js_value list \<Rightarrow> js_error + js_value list" where
  "map_data [] = Inr []"
| "map_data (ans # rest) =
     (case get_property ans ''data'' of
        Inl e \<Rightarrow> Inl e
      | Inr d \<Rightarrow> (case map_data rest of Inl e \<Rightarrow> Inl e | Inr ds \<Rightarrow> Inr (d # ds)))"

fun Answer_map :: "js_value \<Rightarrow> js_error + js_value list" where
  "Answer_map (JArr answers) = map_data answers"
| "Answer_map v = Inl TypeError"

text \<open>
  What lies outside the repository is a parameter of the model. \<open>axios_get\<close> is the
  outcome of the DoH request for a host name: it fails (a network error, the timeout of
  3000 ms, a status outside 2xx) or yields \<open>response.data\<close>. \<open>dns_resolve4\<close> is
  what \<open>dns.resolve4\<close> passes to its callback. \<open>new_URL\<close> is the URL parser
  applied to the request target and the base, \<open>None\<close> when it throws; it yields the
  scheme, the host name and the port written in the target, if any, in decimal digits.
  \<open>connect_throws\<close> tells whether \<open>net.connect\<close> throws at once for a port and
  a host (a port out of range).

  The \<open>port\<close> of a parsed URL, which is all \<open>handleRequest\<close> reads of the port,
  is the empty string when the target has no port, and also when the port written is
  the default port of the scheme: the parser drops it.
\<close>

datatype doh_reply = DohFailed | DohResponse js_value

datatype dns_reply = DnsError | DnsAddresses "string list"

record url =
  url_scheme :: string
  url_hostname :: string
  url_declared :: "string option"

definition default_port :: "string \<Rightarrow> string option" where
  "default_port scheme =
     map_of [(''ftp'', ''21''), (''http'', ''80''), (''https'', ''443''), (''ws'', ''80''),
             (''wss'', ''443'')] scheme"

definition url_port :: "url \<Rightarrow> string" where
  "url_port u =
     (case url_declared u of
        None \<Rightarrow> []
      | Some d \<Rightarrow> if default_port (url_scheme u) = Some d then [] else d)"

datatype port_arg = PortNumber nat | PortString string

record platform =
  axios_get :: "string \<Rightarrow> doh_reply"
  dns_resolve4 :: "string \<Rightarrow> dns_reply"
  new_URL :: "string \<Rightarrow> string \<Rightarrow> url option"
  connect_throws :: "port_arg \<Rightarrow> js_value \<Rightarrow> bool"

text \<open>
  \<open>try_doh\<close> is the \<open>try\<close> block of \<open>resolve\<close>: \<open>Inl\<close> when something in
  it throws, \<open>Inr (Some ds)\<close> when it returns \<open>ds\<close>, \<open>Inr None\<close> when the
  \<open>if\<close> fails and control leaves the block. \<open>resolve\<close> returns the lookups it
  made, in order, and its result: the \<open>catch\<close> asks \<open>dns.resolve4\<close> and turns
  its error into the empty list; after the block comes \<open>return []\<close>.
\<close>

datatype lookup = DohQuery string | Resolve4 string

definition try_doh :: "platform \<Rightarrow> string \<Rightarrow> js_error + js_value list option" where
  "try_doh pf h =
     (case axios_get pf h of
        DohFailed \<Rightarrow> Inl RequestFailed
      | DohResponse d \<Rightarrow>
          (case get_property d ''Answer'' of
             Inl e \<Rightarrow> Inl e
           | Inr answer \<Rightarrow>
               if truthy answer
               then (case Answer_map answer of Inl e \<Rightarrow> Inl e | Inr ds \<Rightarrow> Inr (Some ds))
               else Inr None))"

definition resolve :: "platform \<Rightarrow> string \<Rightarrow> lookup list \<times> js_value list" where
  "resolve pf h =
     (case try_doh pf h of
        Inl e \<Rightarrow>
          ([DohQuery h, Resolve4 h],
           case dns_resolve4 pf h of DnsError \<Rightarrow> [] | DnsAddresses as \<Rightarrow> map JStr as)
      | Inr (Some ds) \<Rightarrow> ([DohQuery h], ds)
      | Inr None \<Rightarrow> ([DohQuery h], []))"

section \<open>The proxy\<close>

text \<open>
  A handler of the proxy is modelled by the calls it makes on the outside world, in
  order: the lookups of the resolver, \<open>net.connect\<close>, and the writes, ends and pipes
  on the client's response (\<open>clientRes\<close>), the client's socket and the upstream
  socket. After \<open>net.connect\<close> has returned, the handler goes on in its listeners:
  the events of the two sockets are a parameter, and each listener adds its calls. The
  callback given to \<open>net.connect\<close> runs on the first \<open>connect\<close> only.
  \<open>TargetData\<close> is the upstream socket delivering bytes, which calls no listener
  of the handler but passes through the pipes, once they are set up.
  \<open>UncaughtError\<close> is an exception thrown in a listener, where nothing catches it.
\<close>

datatype effect =
    Lookup lookup
  | Connect port_arg js_value
  | ResWriteHead nat
  | ResEnd string
  | PipeRequestToTarget
  | PipeTargetToResponse
  | SocketWrite string
  | SocketEnd
  | TargetWrite string
  | TargetEnd
  | PipeSocketToTarget
  | PipeTargetToSocket
  | UncaughtError string

datatype socket_event = TargetConnect | TargetData | TargetError | ClientError

record request =
  req_method :: string
  req_url :: string
  req_host :: "string option"
  req_body :: string

text \<open>\<open>port || d\<close>: an absent or empty port is falsy.\<close>

definition port_or :: "nat \<Rightarrow> string option \<Rightarrow> port_arg" where
  "port_or d p =
     (case p of None \<Rightarrow> PortNumber d | Some s \<Rightarrow> if s = [] then PortNumber d else PortString s)"

text \<open>The template string \<open>http://${clientReq.headers.host}\<close>.\<close>

definition base_url :: "request \<Rightarrow> string" where
  "base_url req = ''http://'' @ (case req_host req of None \<Rightarrow> ''undefined'' | Some h \<Rightarrow> h)"

text \<open>
  The listeners of the plain HTTP path. \<open>c\<close> tells whether the upstream socket has
  connected, \<open>sent\<close> whether the head of the response has been sent: by
  \<open>writeHead\<close>, or by the first bytes the pipe writes to \<open>clientRes\<close>. Once it
  is sent, \<open>writeHead(502)\<close> in the error listener throws and \<open>end\<close> is not
  reached.
\<close>

fun request_events :: "bool \<Rightarrow> bool \<Rightarrow> socket_event list \<Rightarrow> effect list" where
  "request_events c sent [] = []"
| "request_events c sent (TargetConnect # evs) =
     (if c then [] else [PipeRequestToTarget, PipeTargetToResponse])
     @ request_events True sent evs"
| "request_events c sent (TargetData # evs) = request_events c (sent \<or> c) evs"
| "request_events c sent (TargetError # evs) =
     (if sent then UncaughtError ''ERR_HTTP_HEADERS_SENT'' # request_events c sent evs
      else [ResWriteHead 502, ResEnd ''Connection Failed''] @ request_events c True evs)"
| "request_events c sent (ClientError # evs) = request_events c sent evs"

definition handleRequest :: "platform \<Rightarrow> request \<Rightarrow> socket_event list \<Rightarrow> effect list" where
  "handleRequest pf clientReq evs =
     (case new_URL pf (req_url clientReq) (base_url clientReq) of
        None \<Rightarrow> [ResWriteHead 500, ResEnd ''Proxy Error'']
      | Some targetUrl \<Rightarrow>
          (case resolve pf (url_hostname targetUrl) of
             (lookups, addresses) \<Rightarrow>
               map Lookup lookups @
               (if length addresses = 0 then [ResWriteHead 502, ResEnd ''DNS Failed'']
                else if connect_throws pf (port_or 80 (Some (url_port targetUrl))) (hd addresses)
                then [ResWriteHead 500, ResEnd ''Proxy Error'']
                else Connect (port_or 80 (Some (url_port targetUrl))) (hd addresses)
                       # request_events False False evs)))"

text \<open>
  \<open>String.prototype.split\<close> with a separator of one character: the pieces between
  the separators, so at least one piece.
\<close>

fun split :: "char \<Rightarrow> string \<Rightarrow> string list" where
  "split c [] = [[]]"
| "split c (x # xs) =
     (if x = c then [] # split c xs
      else (case split c xs of p # ps \<Rightarrow> (x # p) # ps | [] \<Rightarrow> [[x]]))"

definition established :: string where
  "established =
     ''HTTP/1.1 200 Connection Established'' @ [CHR 0x0D, CHR 0x0A, CHR 0x0D, CHR 0x0A]"

fun tunnel_events :: "string \<Rightarrow> bool \<Rightarrow> socket_event list \<Rightarrow> effect list" where
  "tunnel_events head c [] = []"
| "tunnel_events head c (TargetConnect # evs) =
     (if c then []
      else [SocketWrite established, TargetWrite head, PipeSocketToTarget, PipeTargetToSocket])
     @ tunnel_events head True evs"
| "tunnel_events head c (TargetData # evs) = tunnel_events head c evs"
| "tunnel_events head c (TargetError # evs) = SocketEnd # tunnel_events head c evs"
| "tunnel_events head c (ClientError # evs) = TargetEnd # tunnel_events head c evs"

text \<open>
  \<open>const [hostname, port] = clientReq.url.split(':')\<close> takes the first two pieces;
  \<open>port\<close> is \<open>undefined\<close> when there is one piece only.
\<close>

definition handleHttps ::
  "platform \<Rightarrow> string \<Rightarrow> string \<Rightarrow> socket_event list \<Rightarrow> effect list" where
  "handleHttps pf url head evs =
     (let parts = split (CHR '':'') url;
          hostname = hd parts;
          port = (case tl parts of [] \<Rightarrow> None | p # _ \<Rightarrow> Some p)
      in case resolve pf hostname of
           (lookups, addresses) \<Rightarrow>
             map Lookup lookups @
             (if length addresses > 0 then
                (if connect_throws pf (port_or 443 port) (hd addresses) then [SocketEnd]
                 else Connect (port_or 443 port) (hd addresses) # tunnel_events head False evs)
              else [SocketEnd]))"

subsection \<open>What the two ends see on the plain HTTP path\<close>

text \<open>
  \<open>clientReq\<close> is a readable stream of the request's body: \<open>clientReq.pipe\<close>
  writes the body, and nothing else of the request, to the upstream socket. \<open>clientRes\<close>
  is the response under construction: \<open>writeHead\<close> sets its status, which is 200
  when the first write comes without one, and \<open>end\<close> and the pipe from the upstream
  socket write its body.
\<close>

definition target_input :: "request \<Rightarrow> effect list \<Rightarrow> string" where
  "target_input req effs =
     concat (map (\<lambda>e. case e of PipeRequestToTarget \<Rightarrow> req_body req | TargetWrite b \<Rightarrow> b
                        | _ \<Rightarrow> []) effs)"

definition response_status :: "effect list \<Rightarrow> nat" where
  "response_status effs = (case [n. ResWriteHead n \<leftarrow> effs] of [] \<Rightarrow> 200 | n # _ \<Rightarrow> n)"

definition response_body :: "string \<Rightarrow> effect list \<Rightarrow> string" where
  "response_body upstream effs =
     concat (map (\<lambda>e. case e of ResEnd b \<Rightarrow> b | PipeTargetToResponse \<Rightarrow> upstream
                        | _ \<Rightarrow> []) effs)"

text \<open>
  Whether the client's connection is closed after the calls of a handler: by
  \<open>clientSocket.end\<close>, or by Node itself after \<open>clientRes.end\<close> when the
  connection is not persistent (an HTTP/1.0 request, or one with
  \<open>Connection: close\<close>). \<open>keep_alive\<close> tells that it is persistent.
\<close>

fun ends_response :: "effect \<Rightarrow> bool" where
  "ends_response (ResEnd b) = True"
| "ends_response e = False"

definition client_connection_closed :: "bool \<Rightarrow> effect list \<Rightarrow> bool" where
  "client_connection_closed keep_alive effs \<longleftrightarrow>
     SocketEnd \<in> set effs \<or> (\<not> keep_alive \<and> list_ex ends_response effs)"

text \<open>The calls of the two error listeners of the tunnel, for a list of socket events.\<close>

definition closes :: "socket_event list \<Rightarrow> effect list" where
  "closes evs =
     concat (map (\<lambda>e. case e of TargetError \<Rightarrow> [SocketEnd] | ClientError \<Rightarrow> [TargetEnd]
                        | _ \<Rightarrow> []) evs)"

subsection \<open>Example platforms\<close>

text \<open>
  A platform on which \<open>example.local\<close> has two DoH answers, \<open>nxdomain.test\<close> has
  a DoH response without answers, the DoH request for any other name fails, and the
  conventional resolver knows \<open>intranet\<close> and \<open>nxdomain.test\<close>. Its parser
  knows four absolute targets and one target in origin form.
\<close>

definition example_platform :: platform where
  "example_platform =
     \<lparr>axios_get = (\<lambda>h.
        if h = ''example.local'' then
          DohResponse (JObj [(''Status'', JNum 0),
            (''Answer'', JArr [JObj [(''name'', JStr ''example.local''), (''data'', JStr ''10.0.0.7'')],
                               JObj [(''name'', JStr ''example.local''), (''data'', JStr ''10.0.0.8'')]])])
        else if h = ''nxdomain.test'' then DohResponse (JObj [(''Status'', JNum 3)])
        else DohFailed),
      dns_resolve4 = (\<lambda>h.
        if h = ''intranet'' \<or> h = ''nxdomain.test'' then DnsAddresses [''192.168.0.2'']
        else DnsError),
      new_URL = (\<lambda>u b.
        if u = ''http://example.local/'' then
          Some \<lparr>url_scheme = ''http'', url_hostname = ''example.local'', url_declared = None\<rparr>
        else if u = ''http://example.local:80/'' then
          Some \<lparr>url_scheme = ''http'', url_hostname = ''example.local'', url_declared = Some ''80''\<rparr>
        else if u = ''https://example.local:443/'' then
          Some \<lparr>url_scheme = ''https'', url_hostname = ''example.local'', url_declared = Some ''443''\<rparr>
        else if u = ''http://nowhere.test:8080/'' then
          Some \<lparr>url_scheme = ''http'', url_hostname = ''nowhere.test'', url_declared = Some ''8080''\<rparr>
        else if u = ''/index.html'' \<and> b = ''http://example.local:8080'' then
          Some \<lparr>url_scheme = ''http'', url_hostname = ''example.local'', url_declared = Some ''8080''\<rparr>
        else None),
      connect_throws = (\<lambda>p a. False)\<rparr>"

definition example_get :: request where
  "example_get =
     \<lparr>req_method = ''GET'', req_url = ''http://example.local/'',
      req_host = Some ''example.local'', req_body = []\<rparr>"

text \<open>
  A platform whose DoH request and conventional resolver give the same two replies for
  every name.
\<close>

definition fixed_platform :: "doh_reply \<Rightarrow> dns_reply \<Rightarrow> platform" where
  "fixed_platform d r =
     \<lparr>axios_get = (\<lambda>h. d), dns_resolve4 = (\<lambda>h. r), new_URL = (\<lambda>u b. None),
      connect_throws = (\<lambda>p a. False)\<rparr>"

section \<open>Properties of the cleanup manager\<close>

lemma cleanup_guard: "isCleaning s \<Longrightarrow> cleanup s = s"
  by (simp add: cleanup.simps)

lemma process_exit_cleaning:
  "isCleaning s \<Longrightarrow>
   process_exit c s =
     (if exiting s then s\<lparr>exitCode := Some c\<rparr>
      else if exitCode s = None then s\<lparr>exiting := True, exitCode := Some c\<rparr>
      else s\<lparr>exiting := True\<rparr>)"
  by (simp add: process_exit.simps cleanup_guard Let_def)

lemma get_property_nullish: "(\<exists>e. get_property v k = Inl e) \<longleftrightarrow> nullish v"
  by (cases v) simp_all

lemma warnings_take_Suc:
  "i < length hs \<Longrightarrow>
   warnings (take (Suc i) hs) = warnings (take i hs) @ map LogWarning (logged (hs ! i))"
  by (simp add: warnings_def take_Suc_conv_app_nth)

lemma cleanup_loop_result:
  "entering hs i s \<Longrightarrow>
   (\<exists>j\<ge>i. suspended hs j (cleanup_loop i s) \<and> exitCode (cleanup_loop i s) = None) \<or>
   (\<exists>j\<ge>i. aborted hs j (cleanup_loop i s) \<and> exitCode (cleanup_loop i s) = None) \<or>
   finished hs (cleanup_loop i s)"
proof (induction "length hs - i" arbitrary: i s)
  case 0
  then have i: "\<not> i < length hs" and hs: "cleanupHandlers s = hs"
    and s: "isCleaning (console_log LogRemoved s)"
    by (simp_all add: entering_def console_log_def)
  have "cleanup_loop i s = process_exit 0 (console_log LogRemoved s)"
    using i hs by (simp add: cleanup_loop.simps [of i s])
  also have "\<dots> =
      (if exiting s then (console_log LogRemoved s)\<lparr>exitCode := Some 0\<rparr>
       else (console_log LogRemoved s)\<lparr>exiting := True, exitCode := Some 0\<rparr>)"
    using 0 by (simp add: process_exit_cleaning [OF s]) (simp add: entering_def console_log_def)
  finally have "finished hs (cleanup_loop i s)"
    using 0 by (simp add: entering_def finished_def console_log_def cleanup_lines_def)
  then show ?case by simp
next
  case (Suc n)
  then have i: "i < length hs" by simp
  have hs: "cleanupHandlers s = hs" using Suc.prems by (simp add: entering_def)
  show ?case
  proof (cases "hs ! i")
    case (Throws error)
    show ?thesis
    proof (cases "get_property error ''message''")
      case (Inl e)
      then have "cleanup_loop i s = s\<lparr>invoked := invoked s @ [i]\<rparr>"
        using i hs Throws by (simp add: cleanup_loop.simps [of i s])
      moreover have "nullish error" using Inl get_property_nullish by blast
      ultimately have "aborted hs i (cleanup_loop i s) \<and> exitCode (cleanup_loop i s) = None"
        using Suc.prems i Throws by (simp add: entering_def aborted_def cleanup_lines_def)
      then show ?thesis by blast
    next
      case (Inr m)
      let ?s = "console_log (LogWarning m) (s\<lparr>invoked := invoked s @ [i]\<rparr>)"
      have eq: "cleanup_loop i s = cleanup_loop (Suc i) ?s"
        using i hs Throws Inr by (simp add: cleanup_loop.simps [of i s])
      have "entering hs (Suc i) ?s"
        using Suc.prems i Throws Inr
        by (simp add: entering_def console_log_def cleanup_lines_def warnings_take_Suc)
      moreover have "n = length hs - Suc i" using Suc.hyps(2) by simp
      ultimately have
        "(\<exists>j\<ge>Suc i. suspended hs j (cleanup_loop (Suc i) ?s) \<and>
            exitCode (cleanup_loop (Suc i) ?s) = None) \<or>
         (\<exists>j\<ge>Suc i. aborted hs j (cleanup_loop (Suc i) ?s) \<and>
            exitCode (cleanup_loop (Suc i) ?s) = None) \<or>
         finished hs (cleanup_loop (Suc i) ?s)"
        using Suc.hyps(1) by blast
      then show ?thesis
        unfolding eq by (meson Suc_leD)
    qed
  next
    case Fulfils
    then have "cleanup_loop i s = s\<lparr>invoked := invoked s @ [i], awaiting := Some (i, hs ! i)\<rparr>"
      using i hs by (simp add: cleanup_loop.simps [of i s])
    then have "suspended hs i (cleanup_loop i s) \<and> exitCode (cleanup_loop i s) = None"
      using Suc.prems i Fulfils by (simp add: entering_def suspended_def cleanup_lines_def)
    then show ?thesis by blast
  next
    case (Rejects error)
    then have "cleanup_loop i s = s\<lparr>invoked := invoked s @ [i], awaiting := Some (i, hs ! i)\<rparr>"
      using i hs by (simp add: cleanup_loop.simps [of i s])
    then have "suspended hs i (cleanup_loop i s) \<and> exitCode (cleanup_loop i s) = None"
      using Suc.prems i Rejects by (simp add: entering_def suspended_def cleanup_lines_def)
    then show ?thesis by blast
  qed
qed

lemma session_handlers_aux:
  "fold addCleanupHandler hs s = s\<lparr>cleanupHandlers := cleanupHandlers s @ hs\<rparr>"
  by (induction hs arbitrary: s) (simp_all add: addCleanupHandler_def)

lemma session_eq:
  "session hs = new_CleanupManager\<lparr>cleanupHandlers := hs\<rparr>"
  by (simp add: session_def session_handlers_aux) (simp add: new_CleanupManager_def)

lemma idle_session: "idle hs (session hs)"
  by (simp add: session_eq idle_def new_CleanupManager_def cleanup_lines_def)

lemma cleanup_idle:
  assumes "idle hs s"
  shows "(\<exists>j. suspended hs j (cleanup s) \<and> exitCode (cleanup s) = None) \<or>
         (\<exists>j. aborted hs j (cleanup s) \<and> exitCode (cleanup s) = None) \<or>
         finished hs (cleanup s)"
proof -
  let ?s = "console_log LogCleaning (s\<lparr>isCleaning := True\<rparr>)"
  have "cleanup s = cleanup_loop 0 ?s"
    using assms by (simp add: cleanup.simps [of s] idle_def)
  moreover have "entering hs 0 ?s"
    using assms by (simp add: idle_def entering_def console_log_def cleanup_lines_def warnings_def)
  ultimately show ?thesis
    using cleanup_loop_result [of hs 0 ?s] by auto
qed

lemma idle_logged: "idle hs s \<Longrightarrow> idle hs (console_log LogShutdownRequested s)"
  by (simp add: idle_def console_log_def cleanup_lines_def)

lemma process_exit_idle:
  assumes "idle hs s" "\<not> exiting s"
  shows "(\<exists>j. suspended hs j (process_exit c s)) \<or> (\<exists>j. aborted hs j (process_exit c s)) \<or>
         finished hs (process_exit c s)"
proof -
  let ?s = "s\<lparr>exiting := True\<rparr>"
  have idle: "idle hs ?s" using assms by (simp add: idle_def cleanup_lines_def)
  have eq: "process_exit c s =
      (if exitCode (cleanup ?s) = None then (cleanup ?s)\<lparr>exitCode := Some c\<rparr> else cleanup ?s)"
    using assms by (simp add: process_exit.simps [of c s] Let_def)
  from cleanup_idle [OF idle] consider
      j where "suspended hs j (cleanup ?s)" "exitCode (cleanup ?s) = None"
    | j where "aborted hs j (cleanup ?s)" "exitCode (cleanup ?s) = None"
    | "finished hs (cleanup ?s)"
    by blast
  then show ?thesis
  proof cases
    case 1
    then have "suspended hs j (process_exit c s)"
      by (simp add: eq suspended_def cleanup_lines_def)
    then show ?thesis by blast
  next
    case 2
    then have "aborted hs j (process_exit c s)"
      by (simp add: eq aborted_def cleanup_lines_def)
    then show ?thesis by blast
  next
    case 3
    then show ?thesis by (simp add: eq finished_def)
  qed
qed

lemma cleaning_trigger:
  assumes "isCleaning s"
  shows "cleanup s = s"
    and "shutdownFromWeb s = console_log LogShutdownRequested s"
    and "process_exit c s =
      (if exiting s then s\<lparr>exitCode := Some c\<rparr>
       else if exitCode s = None then s\<lparr>exiting := True, exitCode := Some c\<rparr>
       else s\<lparr>exiting := True\<rparr>)"
proof -
  show "cleanup s = s" using assms by (rule cleanup_guard)
  have "isCleaning (console_log LogShutdownRequested s)" using assms by (simp add: console_log_def)
  then show "shutdownFromWeb s = console_log LogShutdownRequested s"
    by (simp add: shutdownFromWeb_def cleanup_guard)
  show "process_exit c s =
      (if exiting s then s\<lparr>exitCode := Some c\<rparr>
       else if exitCode s = None then s\<lparr>exiting := True, exitCode := Some c\<rparr>
       else s\<lparr>exiting := True\<rparr>)"
    using assms by (rule process_exit_cleaning)
qed

lemma suspended_trigger:
  assumes "suspended hs i s"
  shows "suspended hs i (cleanup s)"
    and "suspended hs i (shutdownFromWeb s)"
    and "suspended hs i (process_exit c s)"
proof -
  have c: "isCleaning s" using assms by (simp add: suspended_def)
  show "suspended hs i (cleanup s)" using assms by (simp add: cleaning_trigger(1) [OF c])
  show "suspended hs i (shutdownFromWeb s)"
    using assms
    by (simp add: cleaning_trigger(2) [OF c] suspended_def console_log_def cleanup_lines_def)
  show "suspended hs i (process_exit c s)"
    using assms by (simp add: cleaning_trigger(3) [OF c] suspended_def cleanup_lines_def)
qed

lemma aborted_trigger:
  assumes "aborted hs i s"
  shows "aborted hs i (cleanup s)"
    and "aborted hs i (shutdownFromWeb s)"
    and "aborted hs i (process_exit c s)"
    and "aborted hs i (resume s)"
proof -
  have c: "isCleaning s" using assms by (simp add: aborted_def)
  show "aborted hs i (cleanup s)" using assms by (simp add: cleaning_trigger(1) [OF c])
  show "aborted hs i (shutdownFromWeb s)"
    using assms
    by (simp add: cleaning_trigger(2) [OF c] aborted_def console_log_def cleanup_lines_def)
  show "aborted hs i (process_exit c s)"
    using assms by (simp add: cleaning_trigger(3) [OF c] aborted_def cleanup_lines_def)
  show "aborted hs i (resume s)"
    using assms by (simp add: resume_def aborted_def)
qed

lemma resume_suspended:
  assumes "suspended hs i s" "exitCode s = None"
  shows "(\<exists>j. suspended hs j (resume s)) \<or> (\<exists>j. aborted hs j (resume s)) \<or>
         finished hs (resume s)"
proof -
  have i: "i < length hs" and aw: "awaiting s = Some (i, hs ! i)" and nt: "\<not> throws (hs ! i)"
    using assms by (simp_all add: suspended_def)
  show ?thesis
  proof (cases "aborts (hs ! i)")
    case True
    then obtain error where e: "hs ! i = Rejects error" "nullish error"
      using nt by (cases "hs ! i") simp_all
    then obtain x where "get_property error ''message'' = Inl x"
      using get_property_nullish by blast
    then have "resume s = s\<lparr>awaiting := None\<rparr>"
      using aw e by (simp add: resume_def)
    then have "aborted hs i (resume s)"
      using assms True by (simp add: suspended_def aborted_def cleanup_lines_def)
    then show ?thesis by blast
  next
    case False
    define s' where "s' =
      (case hs ! i of
         Rejects error \<Rightarrow>
           (case get_property error ''message'' of
              Inr m \<Rightarrow> console_log (LogWarning m) (s\<lparr>awaiting := None\<rparr>)
            | Inl e \<Rightarrow> s)
       | _ \<Rightarrow> s\<lparr>awaiting := None\<rparr>)"
    have notinl: "get_property error ''message'' \<noteq> Inl e" if "hs ! i = Rejects error" for error e
      using that False get_property_nullish [of error "''message''"] by auto
    have eq: "resume s = cleanup_loop (Suc i) s'"
      using aw notinl
      by (cases "hs ! i") (auto simp: resume_def s'_def split: sum.splits)
    have "entering hs (Suc i) s'"
      using assms i nt notinl
      by (cases "hs ! i")
        (auto simp: s'_def suspended_def entering_def console_log_def cleanup_lines_def
          warnings_take_Suc split: sum.splits)
    from cleanup_loop_result [OF this] show ?thesis
      unfolding eq by blast
  qed
qed

lemma step_dead: "exitCode s \<noteq> None \<Longrightarrow> step e s = s"
  by (simp add: step_def)

lemma step_inv:
  assumes "pass_inv hs s"
  shows "pass_inv hs (step e s)"
proof (cases "exitCode s = None")
  case False
  then show ?thesis using assms by (simp add: step_dead)
next
  case live: True
  from assms consider (idle) "idle hs s" "\<not> exiting s" | (susp) i where "suspended hs i s"
    | (abort) i where "aborted hs i s" | (fin) "finished hs s"
    unfolding pass_inv_def by blast
  then show ?thesis
  proof cases
    case idle
    show ?thesis
    proof (cases e)
      case (Emit p)
      then show ?thesis
        using cleanup_idle [OF idle(1)] live by (auto simp: step_def pass_inv_def)
    next
      case (ProcessExit c)
      then show ?thesis
        using process_exit_idle [OF idle, of c] live by (auto simp: step_def pass_inv_def)
    next
      case WebShutdown
      then show ?thesis
        using cleanup_idle [OF idle_logged [OF idle(1)]] live
        by (auto simp: step_def pass_inv_def shutdownFromWeb_def)
    next
      case Settled
      then show ?thesis
        using idle live assms by (simp add: step_def resume_def idle_def)
    qed
  next
    case susp
    show ?thesis
    proof (cases e)
      case (Emit p)
      then show ?thesis
        using suspended_trigger(1) [OF susp] live by (auto simp: step_def pass_inv_def)
    next
      case (ProcessExit c)
      then show ?thesis
        using suspended_trigger(3) [OF susp, of c] live by (auto simp: step_def pass_inv_def)
    next
      case WebShutdown
      then show ?thesis
        using suspended_trigger(2) [OF susp] live by (auto simp: step_def pass_inv_def)
    next
      case Settled
      then show ?thesis
        using resume_suspended [OF susp live] live by (auto simp: step_def pass_inv_def)
    qed
  next
    case abort
    show ?thesis
    proof (cases e)
      case (Emit p)
      then show ?thesis
        using aborted_trigger(1) [OF abort] live by (auto simp: step_def pass_inv_def)
    next
      case (ProcessExit c)
      then show ?thesis
        using aborted_trigger(3) [OF abort, of c] live by (auto simp: step_def pass_inv_def)
    next
      case WebShutdown
      then show ?thesis
        using aborted_trigger(2) [OF abort] live by (auto simp: step_def pass_inv_def)
    next
      case Settled
      then show ?thesis
        using aborted_trigger(4) [OF abort] live by (auto simp: step_def pass_inv_def)
    qed
  next
    case fin
    then show ?thesis using live by (simp add: finished_def)
  qed
qed

lemma run_inv: "pass_inv hs s \<Longrightarrow> pass_inv hs (run evs s)"
  by (induction evs arbitrary: s) (simp_all add: run_def step_inv)

lemma session_inv: "pass_inv hs (run evs (session hs))"
proof (rule run_inv)
  have "\<not> exiting (session hs)" by (simp add: session_eq new_CleanupManager_def)
  then show "pass_inv hs (session hs)" using idle_session [of hs] by (simp add: pass_inv_def)
qed

lemma count_list_filter_other:
  "x \<noteq> y \<Longrightarrow> count_list (filter (\<lambda>l. l \<noteq> y) xs) x = count_list xs x"
  by (induction xs) auto

lemma count_map_warning: "count_list (map LogWarning ms) LogCleaning = 0"
  by (induction ms) auto

lemma count_warning_lines: "count_list (warnings hs) LogCleaning = 0"
  by (simp add: warnings_def count_map_warning)

text \<open>
  In every state a session reaches, the handlers called so far are an initial segment
  of the registered ones, each called once; the line that opens a pass is printed at
  most once; and a handler has been called only if the flag is set.
\<close>

lemma inv_invoked:
  assumes "pass_inv hs s"
  shows "invoked s = [0..<length (invoked s)]" and "length (invoked s) \<le> length hs"
    and "count_list (console s) LogCleaning \<le> 1"
    and "invoked s \<noteq> [] \<longrightarrow> isCleaning s"
proof -
  from assms consider (idle) "idle hs s" | (susp) i where "suspended hs i s"
    | (abort) i where "aborted hs i s" | (fin) "finished hs s"
    unfolding pass_inv_def by blast
  note cases = this
  have c: "count_list (console s) LogCleaning = count_list (cleanup_lines s) LogCleaning"
    by (simp add: cleanup_lines_def count_list_filter_other)
  show "invoked s = [0..<length (invoked s)]"
    using cases by cases (simp_all add: idle_def suspended_def aborted_def finished_def)
  show "length (invoked s) \<le> length hs"
    using cases by cases (simp_all add: idle_def suspended_def aborted_def finished_def)
  show "count_list (console s) LogCleaning \<le> 1"
    using cases
    by cases (simp_all add: c idle_def suspended_def aborted_def finished_def count_warning_lines)
  show "invoked s \<noteq> [] \<longrightarrow> isCleaning s"
    using cases by cases (simp_all add: idle_def suspended_def aborted_def finished_def)
qed

lemma cleanup_loop_keeps_flag: "isCleaning s \<Longrightarrow> isCleaning (cleanup_loop i s)"
proof (induction "length (cleanupHandlers s) - i" arbitrary: i s)
  case 0
  then have "cleanup_loop i s = process_exit 0 (console_log LogRemoved s)"
    by (simp add: cleanup_loop.simps [of i s])
  moreover have "isCleaning (console_log LogRemoved s)"
    using 0 by (simp add: console_log_def)
  ultimately show ?case by (simp add: process_exit_cleaning)
next
  case (Suc n)
  then have i: "i < length (cleanupHandlers s)" by simp
  show ?case
  proof (cases "cleanupHandlers s ! i")
    case (Throws error)
    show ?thesis
    proof (cases "get_property error ''message''")
      case (Inl e)
      then show ?thesis using i Throws Suc.prems by (simp add: cleanup_loop.simps [of i s])
    next
      case (Inr m)
      let ?s = "console_log (LogWarning m) (s\<lparr>invoked := invoked s @ [i]\<rparr>)"
      have "n = length (cleanupHandlers ?s) - Suc i"
        using Suc.hyps(2) by (simp add: console_log_def)
      moreover have "isCleaning ?s" using Suc.prems by (simp add: console_log_def)
      ultimately have "isCleaning (cleanup_loop (Suc i) ?s)" by (rule Suc.hyps(1))
      then show ?thesis using i Throws Inr by (simp add: cleanup_loop.simps [of i s])
    qed
  qed (use i Suc.prems in \<open>simp_all add: cleanup_loop.simps [of i s]\<close>)
qed

lemma cleanup_sets_flag: "isCleaning (cleanup s)"
  by (simp add: cleanup.simps [of s] cleanup_loop_keeps_flag console_log_def)

subsection \<open>Claims about the cleanup manager\<close>

lemmas eval_defs = run_def session_def step_def resume_def shutdownFromWeb_def console_log_def
  addCleanupHandler_def new_CleanupManager_def cleanup.simps cleanup_loop.simps
  process_exit.simps

text \<open>
  C1, at a session with three handlers that return promises, as the handlers
  registered by \<open>main\<close> do, whose first trigger is a call \<open>process.exit(1)\<close>
  outside the cleanup manager, as in \<open>go-live.js\<close>. The listener of \<open>exit\<close>
  calls \<open>cleanup\<close>, which calls the first handler and suspends at its
  \<open>await\<close>; the process then terminates with code 1, and the second and the
  third handler are never called, whatever settles afterwards. When \<open>SIGTERM\<close>
  comes first instead, the listener of line 30 leads to all three being called, once
  each and in order, and to exit code 0.
\<close>

theorem exit_listener_skips_handlers:
  "exitCode (run [ProcessExit 1, Settled, Settled, Settled]
     (session [Fulfils, Fulfils, Fulfils])) = Some 1 \<and>
   invoked (run [ProcessExit 1, Settled, Settled, Settled]
     (session [Fulfils, Fulfils, Fulfils])) = [0] \<and>
   exitCode (run [Emit SIGTERM, Settled, Settled, Settled]
     (session [Fulfils, Fulfils, Fulfils])) = Some 0 \<and>
   invoked (run [Emit SIGTERM, Settled, Settled, Settled]
     (session [Fulfils, Fulfils, Fulfils])) = [0, 1, 2]"
  by (simp add: eval_defs)

text \<open>
  C7, at sessions in which a handler fails and another handler is registered after it.
  When the first handler rejects with \<open>undefined\<close>, or throws \<open>null\<close>, the
  \<open>catch\<close> block throws on \<open>error.message\<close>: no warning is logged, the
  second handler is never called, the closing line is not printed and the process does
  not exit. When the pass is started by the listener of \<open>exit\<close>, the handler
  after the first \<open>await\<close> is never called either, and the exit code is 1. When
  the failure is an \<open>Error\<close> and the pass is started by a signal, its message is
  logged and the handler after it is called.
\<close>

theorem nullish_failure_aborts_pass:
  "invoked (run [Emit SIGINT, Settled, Settled] (session [Rejects JUndefined, Fulfils])) = [0] \<and>
   console (run [Emit SIGINT, Settled, Settled] (session [Rejects JUndefined, Fulfils])) =
     [LogCleaning] \<and>
   exitCode (run [Emit SIGINT, Settled, Settled] (session [Rejects JUndefined, Fulfils])) = None \<and>
   invoked (run [Emit SIGINT, Settled, Settled] (session [Throws JNull, Fulfils])) = [0] \<and>
   console (run [Emit SIGINT, Settled, Settled] (session [Throws JNull, Fulfils])) =
     [LogCleaning] \<and>
   exitCode (run [Emit SIGINT, Settled, Settled] (session [Throws JNull, Fulfils])) = None \<and>
   invoked (run [ProcessExit 1, Settled, Settled]
     (session [Fulfils, Throws (JObj [(''message'', JStr ''x'')])])) = [0] \<and>
   console (run [ProcessExit 1, Settled, Settled]
     (session [Fulfils, Throws (JObj [(''message'', JStr ''x'')])])) = [LogCleaning] \<and>
   exitCode (run [ProcessExit 1, Settled, Settled]
     (session [Fulfils, Throws (JObj [(''message'', JStr ''x'')])])) = Some 1 \<and>
   invoked (run [Emit SIGINT, Settled, Settled]
     (session [Fulfils, Throws (JObj [(''message'', JStr ''x'')]), Fulfils])) = [0, 1, 2] \<and>
   console (run [Emit SIGINT, Settled, Settled]
     (session [Fulfils, Throws (JObj [(''message'', JStr ''x'')]), Fulfils])) =
     [LogCleaning, LogWarning (JStr ''x''), LogRemoved] \<and>
   exitCode (run [Emit SIGINT, Settled, Settled]
     (session [Fulfils, Throws (JObj [(''message'', JStr ''x'')]), Fulfils])) = Some 0"
  by (simp add: eval_defs own_property_def)

text \<open>
  C9. A call of \<open>cleanup\<close> that finds the flag set returns the state as it is, so a
  signal, the web request or the \<open>exit\<close> event of \<open>process.exit\<close> arriving
  then calls no handler. A call that finds the flag clear sets it before the loop
  starts, \<open>cleanup\<close> always returns with the flag set, and in every state a session
  reaches a handler has been called only if the flag is set.
\<close>

theorem cleanup_reentry_returns:
  "(isCleaning s \<longrightarrow>
      cleanup s = s \<and> step (Emit p) s = s \<and>
      invoked (shutdownFromWeb s) = invoked s \<and> awaiting (shutdownFromWeb s) = awaiting s \<and>
      invoked (process_exit c s) = invoked s) \<and>
   (\<not> isCleaning s \<longrightarrow>
      cleanup s = cleanup_loop 0 (console_log LogCleaning (s\<lparr>isCleaning := True\<rparr>))) \<and>
   isCleaning (cleanup s) \<and>
   (invoked (run evs (session hs)) \<noteq> [] \<longrightarrow> isCleaning (run evs (session hs)))"
proof -
  have "cleanup s = s \<and> step (Emit p) s = s \<and>
      invoked (shutdownFromWeb s) = invoked s \<and> awaiting (shutdownFromWeb s) = awaiting s \<and>
      invoked (process_exit c s) = invoked s" if c: "isCleaning s"
  proof -
    have "isCleaning (console_log LogShutdownRequested s)" using c by (simp add: console_log_def)
    then have "shutdownFromWeb s = console_log LogShutdownRequested s"
      by (simp add: shutdownFromWeb_def cleanup_guard)
    then show ?thesis
      using c by (simp add: cleanup_guard step_def process_exit_cleaning console_log_def)
  qed
  moreover have "cleanup s = cleanup_loop 0 (console_log LogCleaning (s\<lparr>isCleaning := True\<rparr>))"
    if "\<not> isCleaning s"
    using that by (simp add: cleanup.simps [of s])
  ultimately show ?thesis
    using cleanup_sets_flag [of s] inv_invoked(4) [OF session_inv, of evs hs] by blast
qed

theorem cleanup_reentry_returns_witness:
  "isCleaning (run [Emit SIGINT] (session [Fulfils, Fulfils])) \<and>
   invoked (run [Emit SIGINT] (session [Fulfils, Fulfils])) = [0] \<and>
   cleanup (run [Emit SIGINT] (session [Fulfils, Fulfils])) =
     run [Emit SIGINT] (session [Fulfils, Fulfils]) \<and>
   invoked (process_exit 0 (run [Emit SIGINT] (session [Fulfils, Fulfils]))) = [0] \<and>
   \<not> isCleaning (session [Fulfils, Fulfils]) \<and>
   isCleaning (cleanup (session [Fulfils, Fulfils]))"
  using cleanup_reentry_returns [of "run [Emit SIGINT] (session [Fulfils, Fulfils])" SIGINT 0
      "[Emit SIGINT]" "[Fulfils, Fulfils]"]
    cleanup_reentry_returns [of "session [Fulfils, Fulfils]" SIGINT 0 "[]" "[Fulfils, Fulfils]"]
  by (simp add: eval_defs)

section \<open>Properties of the resolver and the proxy\<close>

lemma split_nonempty: "split c s \<noteq> []"
  by (induction s) (auto split: list.splits)

lemma split_hd: "hd (split c s) = takeWhile (\<lambda>x. x \<noteq> c) s"
  by (induction s) (auto split: list.splits simp: split_nonempty)

lemma split_tl:
  "tl (split c s) = (if c \<in> set s then split c (tl (dropWhile (\<lambda>x. x \<noteq> c) s)) else [])"
  by (induction s) (auto split: list.splits simp: split_nonempty)

lemma map_data_objects: "map_data (map JObj recs) = Inr (map (\<lambda>r. own_property r ''data'') recs)"
  by (induction recs) simp_all

lemma resolve_lookups_hd: "\<exists>rest. fst (resolve pf h) = DohQuery h # rest"
  by (simp add: resolve_def split: sum.splits option.splits)

lemma no_connect_lookups: "Connect p a \<notin> set (map Lookup ls)"
  by auto

lemma no_connect_request_events: "Connect p a \<notin> set (request_events c sent evs)"
  by (induction c sent evs rule: request_events.induct) auto

lemma no_connect_tunnel_events: "Connect p a \<notin> set (tunnel_events head c evs)"
  by (induction head c evs rule: tunnel_events.induct) auto

lemma tunnel_events_connected: "tunnel_events head True evs = closes evs"
  by (induction evs) (auto simp: closes_def split: socket_event.splits)

lemma tunnel_events_before:
  "TargetConnect \<notin> set pre \<Longrightarrow> tunnel_events head c (pre @ evs) = closes pre @ tunnel_events head c evs"
  by (induction pre) (auto simp: closes_def split: socket_event.splits)

lemma tunnel_events_no_connect:
  "TargetConnect \<notin> set evs \<Longrightarrow> tunnel_events head c evs = closes evs"
  using tunnel_events_before [of evs head c "[]"] by simp

lemma no_write_closes: "SocketWrite b \<notin> set (closes evs)"
  by (induction evs) (auto simp: closes_def split: socket_event.splits)

lemma no_write_lookups: "SocketWrite b \<notin> set (map Lookup ls)"
  by auto

lemma split_second:
  "(case tl (split c s) of [] \<Rightarrow> None | p # _ \<Rightarrow> Some p) =
     (if c \<in> set s then Some (takeWhile (\<lambda>x. x \<noteq> c) (tl (dropWhile (\<lambda>x. x \<noteq> c) s))) else None)"
proof (cases "c \<in> set s")
  case True
  let ?r = "tl (dropWhile (\<lambda>x. x \<noteq> c) s)"
  have "tl (split c s) = split c ?r" using True by (simp add: split_tl)
  moreover obtain p ps where "split c ?r = p # ps"
    using split_nonempty [of c ?r] by (cases "split c ?r") auto
  moreover from this have "p = takeWhile (\<lambda>x. x \<noteq> c) ?r"
    using split_hd [of c ?r] by simp
  ultimately show ?thesis using True by simp
next
  case False
  then show ?thesis by (simp add: split_tl)
qed


lemma map_data_nullish: "list_ex nullish vs \<Longrightarrow> map_data vs = Inl TypeError"
proof (induction vs)
  case Nil
  then show ?case by simp
next
  case (Cons v vs)
  then show ?case
    by (cases v) (auto split: sum.splits)
qed

lemma Answer_map_no_array: "\<not> is_array a \<Longrightarrow> Answer_map a = Inl TypeError"
  by (cases a) simp_all

lemma get_property_nullish_Inl: "nullish v \<Longrightarrow> get_property v k = Inl TypeError"
  by (cases v) simp_all

subsection \<open>Claims about the resolver\<close>

text \<open>
  C2, as amended. Whatever is thrown in the \<open>try\<close> block of \<open>resolve\<close> is
  caught, and \<open>resolve\<close> then asks \<open>dns.resolve4\<close> once and returns its
  addresses, or the empty list when that fails too. This happens when the DoH request
  fails (an error or the timeout), when the body of the response is \<open>null\<close> or
  \<open>undefined\<close>, when \<open>Answer\<close> is truthy but no array, and when an element of
  the \<open>Answer\<close> array is \<open>null\<close> or \<open>undefined\<close>. When the DoH request
  succeeds and \<open>Answer\<close> is absent or otherwise falsy, or is the empty array,
  \<open>resolve\<close> returns the empty list and asks nothing further. It never asks
  \<open>dns.resolve4\<close> more than once.
\<close>

theorem resolve_fallback:
  "(let fallback =
          ([DohQuery h, Resolve4 h],
           case dns_resolve4 pf h of DnsError \<Rightarrow> [] | DnsAddresses as \<Rightarrow> map JStr as)
    in (try_doh pf h = Inl e \<longrightarrow> resolve pf h = fallback) \<and>
       (axios_get pf h = DohFailed \<longrightarrow> resolve pf h = fallback) \<and>
       (axios_get pf h = DohResponse d \<and> nullish d \<longrightarrow> resolve pf h = fallback) \<and>
       (axios_get pf h = DohResponse d \<and> get_property d ''Answer'' = Inr a \<and>
        truthy a \<and> \<not> is_array a \<longrightarrow> resolve pf h = fallback) \<and>
       (axios_get pf h = DohResponse d \<and> get_property d ''Answer'' = Inr (JArr vs) \<and>
        list_ex nullish vs \<longrightarrow> resolve pf h = fallback)) \<and>
   (axios_get pf h = DohResponse d \<and> get_property d ''Answer'' = Inr a \<and> \<not> truthy a \<longrightarrow>
      resolve pf h = ([DohQuery h], [])) \<and>
   (axios_get pf h = DohResponse d \<and> get_property d ''Answer'' = Inr (JArr []) \<longrightarrow>
      resolve pf h = ([DohQuery h], [])) \<and>
   count_list (fst (resolve pf h)) (Resolve4 h) \<le> 1"
  unfolding Let_def
proof (intro conjI impI)
  show "count_list (fst (resolve pf h)) (Resolve4 h) \<le> 1"
    by (simp add: resolve_def split: sum.splits option.splits)
qed (auto simp: resolve_def try_doh_def get_property_nullish_Inl Answer_map_no_array
    map_data_nullish)

theorem resolve_fallback_witness:
  "axios_get example_platform ''intranet'' = DohFailed \<and>
   try_doh example_platform ''intranet'' = Inl RequestFailed \<and>
   resolve example_platform ''intranet'' =
     ([DohQuery ''intranet'', Resolve4 ''intranet''], [JStr ''192.168.0.2'']) \<and>
   nullish JNull \<and>
   resolve (fixed_platform (DohResponse JNull) (DnsAddresses [''10.1.1.1''])) ''a.test'' =
     ([DohQuery ''a.test'', Resolve4 ''a.test''], [JStr ''10.1.1.1'']) \<and>
   get_property (JObj [(''Answer'', JStr ''none'')]) ''Answer'' = Inr (JStr ''none'') \<and>
   truthy (JStr ''none'') \<and> \<not> is_array (JStr ''none'') \<and>
   resolve (fixed_platform (DohResponse (JObj [(''Answer'', JStr ''none'')])) DnsError) ''a.test'' =
     ([DohQuery ''a.test'', Resolve4 ''a.test''], []) \<and>
   get_property (JObj [(''Answer'', JArr [JNull])]) ''Answer'' = Inr (JArr [JNull]) \<and>
   list_ex nullish [JNull] \<and>
   resolve (fixed_platform (DohResponse (JObj [(''Answer'', JArr [JNull])]))
       (DnsAddresses [''10.1.1.1''])) ''a.test'' =
     ([DohQuery ''a.test'', Resolve4 ''a.test''], [JStr ''10.1.1.1'']) \<and>
   axios_get example_platform ''nxdomain.test'' = DohResponse (JObj [(''Status'', JNum 3)]) \<and>
   get_property (JObj [(''Status'', JNum 3)]) ''Answer'' = Inr JUndefined \<and>
   \<not> truthy JUndefined \<and>
   resolve example_platform ''nxdomain.test'' = ([DohQuery ''nxdomain.test''], []) \<and>
   get_property (JObj [(''Answer'', JArr [])]) ''Answer'' = Inr (JArr []) \<and>
   resolve (fixed_platform (DohResponse (JObj [(''Answer'', JArr [])]))
       (DnsAddresses [''10.1.1.1''])) ''a.test'' = ([DohQuery ''a.test''], [])"
  using
    resolve_fallback [of "''intranet''" example_platform RequestFailed JNull JNull "[]"]
    resolve_fallback [of "''a.test''" "fixed_platform (DohResponse JNull) (DnsAddresses [''10.1.1.1''])"
      TypeError JNull JNull "[]"]
    resolve_fallback [of "''a.test''"
      "fixed_platform (DohResponse (JObj [(''Answer'', JStr ''none'')])) DnsError"
      TypeError "JObj [(''Answer'', JStr ''none'')]" "JStr ''none''" "[]"]
    resolve_fallback [of "''a.test''"
      "fixed_platform (DohResponse (JObj [(''Answer'', JArr [JNull])])) (DnsAddresses [''10.1.1.1''])"
      TypeError "JObj [(''Answer'', JArr [JNull])]" "JArr [JNull]" "[JNull]"]
    resolve_fallback [of "''nxdomain.test''" example_platform TypeError
      "JObj [(''Status'', JNum 3)]" JUndefined "[]"]
    resolve_fallback [of "''a.test''"
      "fixed_platform (DohResponse (JObj [(''Answer'', JArr [])])) (DnsAddresses [''10.1.1.1''])"
      TypeError "JObj [(''Answer'', JArr [])]" "JArr []" "[]"]
  by (simp add: example_platform_def fixed_platform_def own_property_def try_doh_def)

text \<open>
  C2 as stated fails on a DoH response without answer records: for
  \<open>nxdomain.test\<close> the conventional resolver has an address, but \<open>resolve\<close>
  makes the DoH query only and returns the empty list.
\<close>

theorem resolve_no_answer_counterexample:
  "axios_get example_platform ''nxdomain.test'' = DohResponse (JObj [(''Status'', JNum 3)]) \<and>
   dns_resolve4 example_platform ''nxdomain.test'' = DnsAddresses [''192.168.0.2''] \<and>
   resolve example_platform ''nxdomain.test'' = ([DohQuery ''nxdomain.test''], [])"
  by (simp add: example_platform_def resolve_def try_doh_def own_property_def)

text \<open>
  C8. When the DoH request succeeds with an object whose \<open>Answer\<close> is an array of
  records, \<open>resolve\<close> returns the \<open>data\<close> fields of these records, one for each
  record and in the order of the array, and asks nothing but the DoH query.
\<close>

theorem resolve_answer_order:
  "axios_get pf h = DohResponse (JObj kvs) \<Longrightarrow>
   map_of kvs ''Answer'' = Some (JArr (map JObj recs)) \<Longrightarrow>
   resolve pf h = ([DohQuery h], map (\<lambda>r. own_property r ''data'') recs)"
  by (simp add: resolve_def try_doh_def own_property_def map_data_objects)

theorem resolve_answer_order_witness:
  "axios_get example_platform ''example.local'' =
     DohResponse (JObj [(''Status'', JNum 0),
       (''Answer'', JArr (map JObj
          [[(''name'', JStr ''example.local''), (''data'', JStr ''10.0.0.7'')],
           [(''name'', JStr ''example.local''), (''data'', JStr ''10.0.0.8'')]]))]) \<and>
   resolve example_platform ''example.local'' =
     ([DohQuery ''example.local''], [JStr ''10.0.0.7'', JStr ''10.0.0.8''])"
  using resolve_answer_order [of example_platform "''example.local''"
      "[(''Status'', JNum 0),
        (''Answer'', JArr (map JObj
           [[(''name'', JStr ''example.local''), (''data'', JStr ''10.0.0.7'')],
            [(''name'', JStr ''example.local''), (''data'', JStr ''10.0.0.8'')]]))]"
      "[[(''name'', JStr ''example.local''), (''data'', JStr ''10.0.0.7'')],
        [(''name'', JStr ''example.local''), (''data'', JStr ''10.0.0.8'')]]"]
  by (simp add: example_platform_def own_property_def)


lemma default_port_table:
  "default_port s = Some d \<longleftrightarrow>
     (s, d) \<in> set [(''ftp'', ''21''), (''http'', ''80''), (''https'', ''443''), (''ws'', ''80''),
                    (''wss'', ''443'')]"
  unfolding default_port_def by (subst map_of_eq_Some_iff) simp_all

lemma port_or_url_port:
  "port_or 80 (Some (url_port u)) =
     (case url_declared u of
        None \<Rightarrow> PortNumber 80
      | Some d \<Rightarrow>
          if d = [] \<or> (url_scheme u, d) \<in> set [(''ftp'', ''21''), (''http'', ''80''),
               (''https'', ''443''), (''ws'', ''80''), (''wss'', ''443'')]
          then PortNumber 80 else PortString d)"
  using default_port_table [of "url_scheme u"]
  by (auto simp: port_or_def url_port_def split: option.splits)

lemma closed_lookups: "SocketEnd \<notin> set (map Lookup ls)" "\<not> list_ex ends_response (map Lookup ls)"
  by (induction ls) auto

subsection \<open>Claims about the proxy\<close>

text \<open>
  C3, as amended. When the resolution of the target's host name yields no address, the
  plain HTTP path makes the lookups, answers with status 502 and ends the response
  with the body \<open>DNS Failed\<close>; it makes no other call, so it does not dial, and the
  client's connection is closed only when it is not persistent. The CONNECT path
  makes the lookups and ends the client's socket: it neither dials nor writes to the
  client, and the connection is closed.
\<close>

theorem empty_resolution_no_dial:
  "(new_URL pf (req_url req)
      (''http://'' @ (case req_host req of None \<Rightarrow> ''undefined'' | Some h \<Rightarrow> h)) = Some u \<and>
    snd (resolve pf (url_hostname u)) = [] \<longrightarrow>
      handleRequest pf req evs =
        map Lookup (fst (resolve pf (url_hostname u))) @
        [ResWriteHead 502, ResEnd ''DNS Failed''] \<and>
      client_connection_closed keep_alive (handleRequest pf req evs) = (\<not> keep_alive)) \<and>
   (snd (resolve pf (takeWhile (\<lambda>c. c \<noteq> CHR '':'') url)) = [] \<longrightarrow>
      handleHttps pf url head evs =
        map Lookup (fst (resolve pf (takeWhile (\<lambda>c. c \<noteq> CHR '':'') url))) @ [SocketEnd] \<and>
      client_connection_closed keep_alive (handleHttps pf url head evs))"
proof (rule conjI; rule impI)
  assume a: "new_URL pf (req_url req)
      (''http://'' @ (case req_host req of None \<Rightarrow> ''undefined'' | Some h \<Rightarrow> h)) = Some u \<and>
    snd (resolve pf (url_hostname u)) = []"
  obtain ls addrs where r: "resolve pf (url_hostname u) = (ls, addrs)"
    by (cases "resolve pf (url_hostname u)")
  have b: "base_url req =
      ''http://'' @ (case req_host req of None \<Rightarrow> ''undefined'' | Some h \<Rightarrow> h)"
    by (simp add: base_url_def)
  have eq: "handleRequest pf req evs =
        map Lookup (fst (resolve pf (url_hostname u))) @
        [ResWriteHead 502, ResEnd ''DNS Failed'']"
    using a r unfolding handleRequest_def b by simp
  show "handleRequest pf req evs =
        map Lookup (fst (resolve pf (url_hostname u))) @
        [ResWriteHead 502, ResEnd ''DNS Failed''] \<and>
      client_connection_closed keep_alive (handleRequest pf req evs) = (\<not> keep_alive)"
    unfolding eq by (auto simp: client_connection_closed_def closed_lookups)
next
  assume a: "snd (resolve pf (takeWhile (\<lambda>c. c \<noteq> CHR '':'') url)) = []"
  obtain ls addrs where r: "resolve pf (takeWhile (\<lambda>c. c \<noteq> CHR '':'') url) = (ls, addrs)"
    by (cases "resolve pf (takeWhile (\<lambda>c. c \<noteq> CHR '':'') url)")
  have eq: "handleHttps pf url head evs =
        map Lookup (fst (resolve pf (takeWhile (\<lambda>c. c \<noteq> CHR '':'') url))) @ [SocketEnd]"
    using a r unfolding handleHttps_def Let_def split_hd by simp
  show "handleHttps pf url head evs =
        map Lookup (fst (resolve pf (takeWhile (\<lambda>c. c \<noteq> CHR '':'') url))) @ [SocketEnd] \<and>
      client_connection_closed keep_alive (handleHttps pf url head evs)"
    unfolding eq by (simp add: client_connection_closed_def)
qed

theorem empty_resolution_no_dial_witness:
  "new_URL example_platform ''http://nowhere.test:8080/'' ''http://nowhere.test:8080'' =
     Some \<lparr>url_scheme = ''http'', url_hostname = ''nowhere.test'', url_declared = Some ''8080''\<rparr> \<and>
   snd (resolve example_platform ''nowhere.test'') = [] \<and>
   handleRequest example_platform
     \<lparr>req_method = ''GET'', req_url = ''http://nowhere.test:8080/'',
      req_host = Some ''nowhere.test:8080'', req_body = []\<rparr> [TargetConnect] =
     [Lookup (DohQuery ''nowhere.test''), Lookup (Resolve4 ''nowhere.test''),
      ResWriteHead 502, ResEnd ''DNS Failed''] \<and>
   client_connection_closed False (handleRequest example_platform
     \<lparr>req_method = ''GET'', req_url = ''http://nowhere.test:8080/'',
      req_host = Some ''nowhere.test:8080'', req_body = []\<rparr> [TargetConnect]) \<and>
   snd (resolve example_platform (takeWhile (\<lambda>c. c \<noteq> CHR '':'') ''nowhere.test:443'')) = [] \<and>
   handleHttps example_platform ''nowhere.test:443'' ''abc'' [TargetConnect] =
     [Lookup (DohQuery ''nowhere.test''), Lookup (Resolve4 ''nowhere.test''), SocketEnd] \<and>
   client_connection_closed False
     (handleHttps example_platform ''nowhere.test:443'' ''abc'' [TargetConnect])"
  using empty_resolution_no_dial [of example_platform
      "\<lparr>req_method = ''GET'', req_url = ''http://nowhere.test:8080/'',
        req_host = Some ''nowhere.test:8080'', req_body = []\<rparr>"
      "\<lparr>url_scheme = ''http'', url_hostname = ''nowhere.test'', url_declared = Some ''8080''\<rparr>"
      "[TargetConnect]" False "''nowhere.test:443''" "''abc''"]
  by (simp add: example_platform_def resolve_def try_doh_def client_connection_closed_def)

text \<open>
  C3 as stated fails on a persistent connection: the handler ends the response, and no
  call of it closes the client's connection, which stays open for the next request.
\<close>

theorem keep_alive_counterexample:
  "handleRequest example_platform
     \<lparr>req_method = ''GET'', req_url = ''http://nowhere.test:8080/'',
      req_host = Some ''nowhere.test:8080'', req_body = []\<rparr> [] =
     [Lookup (DohQuery ''nowhere.test''), Lookup (Resolve4 ''nowhere.test''),
      ResWriteHead 502, ResEnd ''DNS Failed''] \<and>
   \<not> client_connection_closed True (handleRequest example_platform
     \<lparr>req_method = ''GET'', req_url = ''http://nowhere.test:8080/'',
      req_host = Some ''nowhere.test:8080'', req_body = []\<rparr> [])"
  by (simp add: example_platform_def resolve_def try_doh_def handleRequest_def base_url_def
      client_connection_closed_def)

text \<open>
  C4. On the CONNECT path nothing is written to the client unless the upstream socket
  has connected. When the resolution yields an address and \<open>net.connect\<close> does not
  throw, the first \<open>connect\<close> of the upstream socket makes the handler write the
  line \<open>HTTP/1.1 200 Connection Established\<close>, a carriage return and line feed, and
  an empty line to the client, then the buffered \<open>head\<close> to the upstream, then
  pipe the two sockets into each other; before and after that, every error of the
  upstream socket ends the client's socket and every error of the client's socket ends
  the upstream socket.
\<close>

theorem tunnel_established_after_dial:
  "(TargetConnect \<notin> set evs \<longrightarrow> SocketWrite b \<notin> set (handleHttps pf url head evs)) \<and>
   (resolve pf (hd (split (CHR '':'') url)) = (ls, a # as) \<and>
    \<not> connect_throws pf
        (port_or 443 (case tl (split (CHR '':'') url) of [] \<Rightarrow> None | p # _ \<Rightarrow> Some p)) a \<and>
    TargetConnect \<notin> set pre \<longrightarrow>
      handleHttps pf url head (pre @ TargetConnect # post) =
        map Lookup ls @
        Connect (port_or 443 (case tl (split (CHR '':'') url) of [] \<Rightarrow> None | p # _ \<Rightarrow> Some p)) a #
        closes pre @
        [SocketWrite (''HTTP/1.1 200 Connection Established'' @
           [CHR 0x0D, CHR 0x0A, CHR 0x0D, CHR 0x0A]),
         TargetWrite head, PipeSocketToTarget, PipeTargetToSocket] @
        closes post \<and>
      closes (pre @ post) =
        concat (map (\<lambda>e. if e = TargetError then [SocketEnd]
                          else if e = ClientError then [TargetEnd] else []) (pre @ post)))"
proof (rule conjI; rule impI)
  assume "TargetConnect \<notin> set evs"
  then show "SocketWrite b \<notin> set (handleHttps pf url head evs)"
    by (auto simp: handleHttps_def Let_def tunnel_events_no_connect no_write_closes
        split: prod.splits)
next
  assume a: "resolve pf (hd (split (CHR '':'') url)) = (ls, a # as) \<and>
    \<not> connect_throws pf
        (port_or 443 (case tl (split (CHR '':'') url) of [] \<Rightarrow> None | p # _ \<Rightarrow> Some p)) a \<and>
    TargetConnect \<notin> set pre"
  have c: "closes es =
      concat (map (\<lambda>e. if e = TargetError then [SocketEnd]
                        else if e = ClientError then [TargetEnd] else []) es)" for es
    by (induction es) (auto simp: closes_def split: socket_event.splits)
  from a have "handleHttps pf url head (pre @ TargetConnect # post) =
        map Lookup ls @
        Connect (port_or 443 (case tl (split (CHR '':'') url) of [] \<Rightarrow> None | p # _ \<Rightarrow> Some p)) a #
        closes pre @
        [SocketWrite (''HTTP/1.1 200 Connection Established'' @
           [CHR 0x0D, CHR 0x0A, CHR 0x0D, CHR 0x0A]),
         TargetWrite head, PipeSocketToTarget, PipeTargetToSocket] @
        closes post"
    by (simp add: handleHttps_def Let_def tunnel_events_before tunnel_events_connected
        established_def)
  then show "handleHttps pf url head (pre @ TargetConnect # post) =
        map Lookup ls @
        Connect (port_or 443 (case tl (split (CHR '':'') url) of [] \<Rightarrow> None | p # _ \<Rightarrow> Some p)) a #
        closes pre @
        [SocketWrite (''HTTP/1.1 200 Connection Established'' @
           [CHR 0x0D, CHR 0x0A, CHR 0x0D, CHR 0x0A]),
         TargetWrite head, PipeSocketToTarget, PipeTargetToSocket] @
        closes post \<and>
      closes (pre @ post) =
        concat (map (\<lambda>e. if e = TargetError then [SocketEnd]
                          else if e = ClientError then [TargetEnd] else []) (pre @ post))"
    using c [of "pre @ post"] by simp
qed

theorem tunnel_established_after_dial_witness:
  "TargetConnect \<notin> set [TargetError] \<and>
   SocketWrite (''HTTP/1.1 200 Connection Established'' @ [CHR 0x0D, CHR 0x0A, CHR 0x0D, CHR 0x0A])
     \<notin> set (handleHttps example_platform ''example.local:8443'' ''hello'' [TargetError]) \<and>
   resolve example_platform (hd (split (CHR '':'') ''example.local:8443'')) =
     ([DohQuery ''example.local''], [JStr ''10.0.0.7'', JStr ''10.0.0.8'']) \<and>
   TargetConnect \<notin> set [ClientError] \<and>
   handleHttps example_platform ''example.local:8443'' ''hello''
       ([ClientError] @ TargetConnect # [TargetData, TargetError]) =
     [Lookup (DohQuery ''example.local''), Connect (PortString ''8443'') (JStr ''10.0.0.7''),
      TargetEnd,
      SocketWrite (''HTTP/1.1 200 Connection Established'' @
        [CHR 0x0D, CHR 0x0A, CHR 0x0D, CHR 0x0A]),
      TargetWrite ''hello'', PipeSocketToTarget, PipeTargetToSocket, SocketEnd]"
  using tunnel_established_after_dial [of "[TargetError]"
      "''HTTP/1.1 200 Connection Established'' @ [CHR 0x0D, CHR 0x0A, CHR 0x0D, CHR 0x0A]"
      example_platform "''example.local:8443''" "''hello''" "[DohQuery ''example.local'']"
      "JStr ''10.0.0.7''" "[JStr ''10.0.0.8'']" "[ClientError]" "[TargetData, TargetError]"]
  by (simp add: example_platform_def resolve_def try_doh_def own_property_def port_or_def
      closes_def)

text \<open>
  C6, as amended. On either path a call of \<open>net.connect\<close> comes after the lookups
  of a resolution that yielded at least one address, and its host is the first
  address. On the CONNECT path its port is what the target has between its first and
  its second colon, or 443 when there is no colon or nothing between the two. On the
  plain HTTP path the URL is parsed from the request's target and the base
  \<open>http://\<close> followed by the \<open>Host\<close> header, and the port is the one written
  in the target, unless none is written or the one written is the default of the
  target's scheme: then it is 80.
\<close>

theorem dial_after_resolution:
  "(Connect p a \<in> set (handleRequest pf req evs) \<longrightarrow>
      (\<exists>u rest.
          new_URL pf (req_url req)
            (''http://'' @ (case req_host req of None \<Rightarrow> ''undefined'' | Some h \<Rightarrow> h)) = Some u \<and>
          snd (resolve pf (url_hostname u)) \<noteq> [] \<and>
          a = hd (snd (resolve pf (url_hostname u))) \<and>
          p = (case url_declared u of
                 None \<Rightarrow> PortNumber 80
               | Some d \<Rightarrow>
                   if d = [] \<or> (url_scheme u, d) \<in> set [(''ftp'', ''21''), (''http'', ''80''),
                        (''https'', ''443''), (''ws'', ''80''), (''wss'', ''443'')]
                   then PortNumber 80 else PortString d) \<and>
          handleRequest pf req evs =
            map Lookup (fst (resolve pf (url_hostname u))) @ Connect p a # rest)) \<and>
   (Connect p a \<in> set (handleHttps pf url head evs) \<longrightarrow>
      (\<exists>rest.
          snd (resolve pf (takeWhile (\<lambda>c. c \<noteq> CHR '':'') url)) \<noteq> [] \<and>
          a = hd (snd (resolve pf (takeWhile (\<lambda>c. c \<noteq> CHR '':'') url))) \<and>
          p = (if CHR '':'' \<in> set url \<and>
                  takeWhile (\<lambda>c. c \<noteq> CHR '':'') (tl (dropWhile (\<lambda>c. c \<noteq> CHR '':'') url)) \<noteq> []
               then PortString
                      (takeWhile (\<lambda>c. c \<noteq> CHR '':'') (tl (dropWhile (\<lambda>c. c \<noteq> CHR '':'') url)))
               else PortNumber 443) \<and>
          handleHttps pf url head evs =
            map Lookup (fst (resolve pf (takeWhile (\<lambda>c. c \<noteq> CHR '':'') url))) @
            Connect p a # rest))"
proof (rule conjI; rule impI)
  assume c: "Connect p a \<in> set (handleRequest pf req evs)"
  let ?base = "''http://'' @ (case req_host req of None \<Rightarrow> ''undefined'' | Some h \<Rightarrow> h)"
  from c obtain u where u: "new_URL pf (req_url req) ?base = Some u"
    by (cases "new_URL pf (req_url req) ?base") (auto simp: handleRequest_def base_url_def)
  obtain ls addrs where r: "resolve pf (url_hostname u) = (ls, addrs)"
    by (cases "resolve pf (url_hostname u)")
  have "addrs \<noteq> [] \<and> a = hd addrs \<and> p = port_or 80 (Some (url_port u)) \<and>
      handleRequest pf req evs = map Lookup ls @ Connect p a # request_events False False evs"
    using c u r
    by (auto simp: handleRequest_def base_url_def no_connect_request_events split: if_splits)
  then show "\<exists>u rest.
          new_URL pf (req_url req) ?base = Some u \<and>
          snd (resolve pf (url_hostname u)) \<noteq> [] \<and>
          a = hd (snd (resolve pf (url_hostname u))) \<and>
          p = (case url_declared u of
                 None \<Rightarrow> PortNumber 80
               | Some d \<Rightarrow>
                   if d = [] \<or> (url_scheme u, d) \<in> set [(''ftp'', ''21''), (''http'', ''80''),
                        (''https'', ''443''), (''ws'', ''80''), (''wss'', ''443'')]
                   then PortNumber 80 else PortString d) \<and>
          handleRequest pf req evs =
            map Lookup (fst (resolve pf (url_hostname u))) @ Connect p a # rest"
    using u r port_or_url_port [of u] by auto
next
  assume c: "Connect p a \<in> set (handleHttps pf url head evs)"
  let ?h = "takeWhile (\<lambda>c. c \<noteq> CHR '':'') url"
  let ?b = "takeWhile (\<lambda>c. c \<noteq> CHR '':'') (tl (dropWhile (\<lambda>c. c \<noteq> CHR '':'') url))"
  obtain ls addrs where r: "resolve pf ?h = (ls, addrs)"
    by (cases "resolve pf ?h")
  have "addrs \<noteq> [] \<and> a = hd addrs \<and>
      p = (if CHR '':'' \<in> set url \<and> ?b \<noteq> [] then PortString ?b else PortNumber 443) \<and>
      handleHttps pf url head evs = map Lookup ls @ Connect p a # tunnel_events head False evs"
    using c r
    unfolding handleHttps_def Let_def split_hd split_second
    by (auto simp: port_or_def no_connect_tunnel_events split: if_splits)
  then show "\<exists>rest.
          snd (resolve pf ?h) \<noteq> [] \<and> a = hd (snd (resolve pf ?h)) \<and>
          p = (if CHR '':'' \<in> set url \<and> ?b \<noteq> [] then PortString ?b else PortNumber 443) \<and>
          handleHttps pf url head evs = map Lookup (fst (resolve pf ?h)) @ Connect p a # rest"
    using r by auto
qed

theorem dial_after_resolution_witness:
  "Connect (PortString ''8080'') (JStr ''10.0.0.7'') \<in>
     set (handleRequest example_platform
       \<lparr>req_method = ''GET'', req_url = ''/index.html'',
        req_host = Some ''example.local:8080'', req_body = []\<rparr> [TargetConnect]) \<and>
   handleRequest example_platform
       \<lparr>req_method = ''GET'', req_url = ''/index.html'',
        req_host = Some ''example.local:8080'', req_body = []\<rparr> [TargetConnect] =
     [Lookup (DohQuery ''example.local''), Connect (PortString ''8080'') (JStr ''10.0.0.7''),
      PipeRequestToTarget, PipeTargetToResponse] \<and>
   Connect (PortNumber 80) (JStr ''10.0.0.7'') \<in>
     set (handleRequest example_platform example_get [TargetConnect]) \<and>
   Connect (PortString ''8443'') (JStr ''10.0.0.7'') \<in>
     set (handleHttps example_platform ''example.local:8443'' [] [TargetConnect]) \<and>
   handleHttps example_platform ''example.local:8443'' [] [TargetConnect] =
     Lookup (DohQuery ''example.local'') # Connect (PortString ''8443'') (JStr ''10.0.0.7'') #
     tunnel_events [] False [TargetConnect] \<and>
   Connect (PortNumber 443) (JStr ''192.168.0.2'') \<in>
     set (handleHttps example_platform ''intranet'' [] [TargetConnect])"
  using dial_after_resolution [of "PortString ''8080''" "JStr ''10.0.0.7''" example_platform
      "\<lparr>req_method = ''GET'', req_url = ''/index.html'',
        req_host = Some ''example.local:8080'', req_body = []\<rparr>" "[TargetConnect]"
      "''example.local:8443''" "[]"]
    dial_after_resolution [of "PortNumber 80" "JStr ''10.0.0.7''" example_platform
      example_get "[TargetConnect]" "''example.local:8443''" "[]"]
    dial_after_resolution [of "PortString ''8443''" "JStr ''10.0.0.7''" example_platform
      example_get "[TargetConnect]" "''example.local:8443''" "[]"]
    dial_after_resolution [of "PortNumber 443" "JStr ''192.168.0.2''" example_platform
      example_get "[TargetConnect]" "''intranet''" "[]"]
  by (simp add: example_platform_def example_get_def handleRequest_def handleHttps_def
      resolve_def try_doh_def own_property_def port_or_def base_url_def Let_def url_port_def
      default_port_def)

text \<open>
  C6 as stated fails on the plain HTTP path for a target that declares the default
  port of its scheme: for \<open>https://example.local:443/\<close> the parsed URL reports no
  port, and the handler dials port 80.
\<close>

theorem default_port_counterexample:
  "new_URL example_platform ''https://example.local:443/'' ''http://example.local:443'' =
     Some \<lparr>url_scheme = ''https'', url_hostname = ''example.local'',
           url_declared = Some ''443''\<rparr> \<and>
   handleRequest example_platform
     \<lparr>req_method = ''GET'', req_url = ''https://example.local:443/'',
      req_host = Some ''example.local:443'', req_body = []\<rparr> [TargetConnect] =
     [Lookup (DohQuery ''example.local''), Connect (PortNumber 80) (JStr ''10.0.0.7''),
      PipeRequestToTarget, PipeTargetToResponse]"
  by (simp add: example_platform_def handleRequest_def resolve_def try_doh_def own_property_def
      port_or_def base_url_def url_port_def default_port_def)

text \<open>
  C10. On the CONNECT path the host name given to the resolver is the target up to its
  first colon, and the port dialled is what stands between the first and the second
  colon, or 443 when there is no colon or nothing between the two. A target with more
  colons is cut at the first: for \<open>[2001:db8::1]:8443\<close> the resolver is asked for
  \<open>[2001\<close> and the port is \<open>db8\<close>.
\<close>

theorem connect_target_split:
  "handleHttps pf url head evs =
     (let hostname = takeWhile (\<lambda>c. c \<noteq> CHR '':'') url;
          between = takeWhile (\<lambda>c. c \<noteq> CHR '':'') (tl (dropWhile (\<lambda>c. c \<noteq> CHR '':'') url));
          port = (if CHR '':'' \<in> set url \<and> between \<noteq> [] then PortString between
                  else PortNumber 443)
      in map Lookup (fst (resolve pf hostname)) @
         (if snd (resolve pf hostname) = [] then [SocketEnd]
          else if connect_throws pf port (hd (snd (resolve pf hostname))) then [SocketEnd]
          else Connect port (hd (snd (resolve pf hostname))) # tunnel_events head False evs)) \<and>
   hd (fst (resolve pf (takeWhile (\<lambda>c. c \<noteq> CHR '':'') url))) =
     DohQuery (takeWhile (\<lambda>c. c \<noteq> CHR '':'') url) \<and>
   handleHttps pf ''[2001:db8::1]:8443'' head evs =
     map Lookup (fst (resolve pf ''[2001'')) @
     (if snd (resolve pf ''[2001'') = [] then [SocketEnd]
      else if connect_throws pf (PortString ''db8'') (hd (snd (resolve pf ''[2001''))) then [SocketEnd]
      else Connect (PortString ''db8'') (hd (snd (resolve pf ''[2001''))) # tunnel_events head False evs)"
proof -
  have general: "handleHttps pf u head evs =
     (let hostname = takeWhile (\<lambda>c. c \<noteq> CHR '':'') u;
          between = takeWhile (\<lambda>c. c \<noteq> CHR '':'') (tl (dropWhile (\<lambda>c. c \<noteq> CHR '':'') u));
          port = (if CHR '':'' \<in> set u \<and> between \<noteq> [] then PortString between
                  else PortNumber 443)
      in map Lookup (fst (resolve pf hostname)) @
         (if snd (resolve pf hostname) = [] then [SocketEnd]
          else if connect_throws pf port (hd (snd (resolve pf hostname))) then [SocketEnd]
          else Connect port (hd (snd (resolve pf hostname))) # tunnel_events head False evs))"
    for u
    unfolding handleHttps_def Let_def split_hd split_second
    by (simp add: port_or_def split: prod.splits)
  have "hd (fst (resolve pf h)) = DohQuery h" for h
    using resolve_lookups_hd [of pf h] by auto
  moreover have "handleHttps pf ''[2001:db8::1]:8443'' head evs =
     map Lookup (fst (resolve pf ''[2001'')) @
     (if snd (resolve pf ''[2001'') = [] then [SocketEnd]
      else if connect_throws pf (PortString ''db8'') (hd (snd (resolve pf ''[2001''))) then [SocketEnd]
      else Connect (PortString ''db8'') (hd (snd (resolve pf ''[2001''))) # tunnel_events head False evs)"
    by (simp add: general [of "''[2001:db8::1]:8443''"] Let_def)
  ultimately show ?thesis using general [of url] by simp
qed

text \<open>
  C5, at the request \<open>GET http://example.local/\<close> with an empty body, a resolvable
  host and an upstream that accepts the connection. The handler pipes the body of the
  request to the upstream, so the upstream receives no byte of the request line or the
  headers; and it pipes whatever the upstream sends into the body of a response whose
  status is 200.
\<close>

theorem http_get_not_relayed:
  "handleRequest example_platform example_get [TargetConnect] =
     [Lookup (DohQuery ''example.local''), Connect (PortNumber 80) (JStr ''10.0.0.7''),
      PipeRequestToTarget, PipeTargetToResponse] \<and>
   target_input example_get (handleRequest example_platform example_get [TargetConnect]) = [] \<and>
   response_status (handleRequest example_platform example_get [TargetConnect]) = 200 \<and>
   response_body upstream (handleRequest example_platform example_get [TargetConnect]) = upstream"
  by (simp add: example_platform_def example_get_def handleRequest_def
      resolve_def try_doh_def own_property_def port_or_def base_url_def target_input_def
      response_status_def response_body_def url_port_def)

end
